theory Spec2Isabelle
  imports Complex_Main
begin

section \<open>JavaScript values used by \<^verbatim>\<open>services/api.ts\<close>\<close>

text \<open>
  A JavaScript \<^verbatim>\<open>number\<close> is read as an exact real: the binary rounding of IEEE doubles
  is not part of the model. \<^verbatim>\<open>Math.round\<close> rounds to the nearest integer, a tie going
  towards plus infinity.
\<close>

type_synonym number = real

definition Math_round :: "number \<Rightarrow> number" where
  "Math_round x = of_int \<lfloor>x + 1 / 2\<rfloor>"

text \<open>
  Strings are lists of 8-bit characters. \<^verbatim>\<open>toUpperCase\<close> is modelled on the ASCII
  letters; every other character is left as it is.
\<close>

definition is_lower :: "char \<Rightarrow> bool" where
  "is_lower c = (97 \<le> (of_char c :: nat) \<and> (of_char c :: nat) \<le> 122)"

definition upcase_char :: "char \<Rightarrow> char" where
  "upcase_char c = (if is_lower c then char_of ((of_char c :: nat) - 32) else c)"

definition toUpperCase :: "string \<Rightarrow> string" where
  "toUpperCase s = map upcase_char s"

text \<open>Decimal notation of a natural number, as \<^verbatim>\<open>String(n)\<close> and \<^verbatim>\<open>'' + n\<close> print it.\<close>

fun digits :: "nat \<Rightarrow> string" where
  "digits n =
     (if n < 10 then [char_of (48 + n)]
      else digits (n div 10) @ [char_of (48 + n mod 10)])"

declare digits.simps [simp del]

text \<open>
  An id of the static document is \<^verbatim>\<open>string | number\<close>. Numeric ids are integers (of
  magnitude below \<open>10\<^sup>2\<^sup>1\<close>, where JavaScript prints plain decimal digits).
\<close>

datatype RawId = IdString string | IdNumber int

fun String :: "RawId \<Rightarrow> string" where
  "String (IdString s) = s"
| "String (IdNumber n) = (if n < 0 then CHR ''-'' # digits (nat (- n)) else digits (nat n))"

text \<open>A rejected promise or a thrown exception, with its message.\<close>

datatype error = Error string | AxiosError string | TypeError string | SyntaxError string

text \<open>
  Reading a property of an object literal: an own property first, then the properties
  every object inherits from \<^verbatim>\<open>Object.prototype\<close>, else \<^verbatim>\<open>undefined\<close>.
\<close>

datatype 'a property = Own 'a | Inherited | Absent

definition Object_prototype :: "string list" where
  "Object_prototype =
     [''constructor'', ''hasOwnProperty'', ''isPrototypeOf'', ''propertyIsEnumerable'',
      ''toLocaleString'', ''toString'', ''valueOf'', ''__proto__'',
      ''__defineGetter__'', ''__defineSetter__'', ''__lookupGetter__'', ''__lookupSetter__'']"

definition get_property :: "(string \<times> 'a) list \<Rightarrow> string \<Rightarrow> 'a property" where
  "get_property obj k =
     (case map_of obj k of
        Some v \<Rightarrow> Own v
      | None \<Rightarrow> if k \<in> set Object_prototype then Inherited else Absent)"

section \<open>The data model\<close>

record Experience =
  exp_id :: string
  exp_name :: string
  exp_location :: string
  exp_description :: string
  exp_image :: string
  exp_price :: number

record RawSlot =
  rs_id :: RawId
  rs_date :: string
  rs_time :: string
  rs_availableSpots :: number
  rs_totalSpots :: number

record RawExperience =
  raw_id :: RawId
  raw_name :: string
  raw_location :: string
  raw_description :: string
  raw_image :: string
  raw_price :: number
  raw_slots :: "RawSlot list option"

record Slot =
  slot_id :: string
  slot_experienceId :: string
  slot_date :: string
  slot_time :: string
  slot_availableSpots :: number
  slot_totalSpots :: number

record ExperienceDetail = Experience +
  slots :: "Slot list"

record BookingRequest =
  experienceId :: string
  slotId :: string
  fullName :: string
  email :: string
  quantity :: number
  promoCode :: "string option"
  date :: string
  time :: string

record BookingData =
  bookingRef :: string
  experienceName :: string
  bk_date :: string
  bk_time :: string
  bk_quantity :: number
  total :: number

record BookingResponse =
  bk_success :: bool
  bk_message :: string
  bk_data :: "BookingData option"

datatype promo_type = percentage | flat

text \<open>
  The fields of the data block are optional in the model because the function builds
  the block from whatever the table lookup returned; \<open>None\<close> is \<^verbatim>\<open>undefined\<close>.
\<close>

record PromoData =
  pd_code :: string
  pd_type :: "promo_type option"
  pd_value :: "number option"
  pd_discount :: "number option"

record PromoValidation =
  pv_success :: bool
  pv_data :: "PromoData option"
  pv_message :: "string option"

text \<open>The static document \<^verbatim>\<open>/data/experiences.json\<close>: \<^verbatim>\<open>{ experiences?: RawExperience[] }\<close>.\<close>

record StaticDocument =
  experiences :: "RawExperience list option"

section \<open>The environment of a call\<close>

text \<open>
  Everything a call reads from outside: the configured base address, the outcome of each
  remote request (\<open>Inl\<close> when anything inside the \<^verbatim>\<open>try\<close> block throws, \<open>Inr\<close> with the
  returned payload otherwise), the outcome of fetching and parsing the static document,
  the clock (\<^verbatim>\<open>Date.now()\<close>) and the calendar: \<open>isoDateAfter n\<close> is
  \<^verbatim>\<open>d.toISOString().slice(0, 10)\<close> for \<^verbatim>\<open>d = new Date(); d.setDate(d.getDate() + n)\<close>.
  The next section gives the computation of this string from a clock and a time zone.
\<close>

record Env =
  API_BASE_URL :: "string option"
  api_get_experiences :: "error + Experience list"
  api_get_experience :: "string \<Rightarrow> error + ExperienceDetail"
  api_post_bookings :: "BookingRequest \<Rightarrow> error + BookingResponse"
  api_post_promo_validate :: "string \<Rightarrow> number \<Rightarrow> error + PromoValidation"
  fetch_experiences_json :: "error + StaticDocument"
  Date_now :: nat
  isoDateAfter :: "nat \<Rightarrow> string"

text \<open>\<^verbatim>\<open>if (API_BASE_URL)\<close>: \<^verbatim>\<open>undefined\<close> and the empty string are falsy.\<close>

definition configured :: "Env \<Rightarrow> bool" where
  "configured env = (case API_BASE_URL env of None \<Rightarrow> False | Some url \<Rightarrow> url \<noteq> [])"

text \<open>
  The fallback path of an operation: no backend is configured, or the remote request of
  this call failed.
\<close>

definition fallback_path :: "Env \<Rightarrow> error + 'a \<Rightarrow> bool" where
  "fallback_path env remote = (\<not> configured env \<or> isl remote)"

section \<open>The Date built-ins behind the calendar\<close>

text \<open>
  Time values are milliseconds since the epoch, in UTC. A time zone is its offset in
  milliseconds, as a function of a UTC time value (\<open>LocalTZA_utc\<close>) and of a local one
  (\<open>LocalTZA_local\<close>).
\<close>

definition msPerDay :: int where
  "msPerDay = 86400000"

record TimeZone =
  LocalTZA_utc :: "int \<Rightarrow> int"
  LocalTZA_local :: "int \<Rightarrow> int"

definition LocalTime :: "TimeZone \<Rightarrow> int \<Rightarrow> int" where
  "LocalTime tz t = t + LocalTZA_utc tz t"

definition UTC :: "TimeZone \<Rightarrow> int \<Rightarrow> int" where
  "UTC tz t = t - LocalTZA_local tz t"

definition Day :: "int \<Rightarrow> int" where
  "Day t = t div msPerDay"

definition TimeWithinDay :: "int \<Rightarrow> int" where
  "TimeWithinDay t = t mod msPerDay"

text \<open>
  The proleptic Gregorian calendar: the date (year, month, day) of a day number counted
  from 1970-01-01, and the day number of a date.
\<close>

definition civil_from_days :: "int \<Rightarrow> int \<times> int \<times> int" where
  "civil_from_days z =
     (let z' = z + 719468;
          era = z' div 146097;
          doe = z' mod 146097;
          yoe = (doe - doe div 1460 + doe div 36524 - doe div 146096) div 365;
          doy = doe - (365 * yoe + yoe div 4 - yoe div 100);
          mp = (5 * doy + 2) div 153;
          d = doy - (153 * mp + 2) div 5 + 1;
          m = (if mp < 10 then mp + 3 else mp - 9);
          y = yoe + era * 400 + (if m \<le> 2 then 1 else 0)
      in (y, m, d))"

definition days_from_civil :: "int \<Rightarrow> int \<Rightarrow> int \<Rightarrow> int" where
  "days_from_civil y m d =
     (let y' = (if m \<le> 2 then y - 1 else y);
          era = y' div 400;
          yoe = y' mod 400;
          doy = (153 * (if m > 2 then m - 3 else m + 9) + 2) div 5 + d - 1;
          doe = yoe * 365 + yoe div 4 - yoe div 100 + doy
      in era * 146097 + doe - 719468)"

text \<open>
  \<^verbatim>\<open>getDate()\<close> is the day of the month in local time. \<^verbatim>\<open>setDate(dt)\<close> keeps the local
  year, month and time of day, takes \<open>dt\<close> as the day of the month (running over into the
  following months) and converts the result back to UTC.
\<close>

definition YearFromTime :: "int \<Rightarrow> int" where
  "YearFromTime t = fst (civil_from_days (Day t))"

definition MonthFromTime :: "int \<Rightarrow> int" where
  "MonthFromTime t = fst (snd (civil_from_days (Day t)))"

definition DateFromTime :: "int \<Rightarrow> int" where
  "DateFromTime t = snd (snd (civil_from_days (Day t)))"

definition MakeDay :: "int \<Rightarrow> int \<Rightarrow> int \<Rightarrow> int" where
  "MakeDay y m dt = days_from_civil y m 1 + dt - 1"

definition MakeDate :: "int \<Rightarrow> int \<Rightarrow> int" where
  "MakeDate dy tm = dy * msPerDay + tm"

definition getDate :: "TimeZone \<Rightarrow> int \<Rightarrow> int" where
  "getDate tz d = DateFromTime (LocalTime tz d)"

definition setDate :: "TimeZone \<Rightarrow> int \<Rightarrow> int \<Rightarrow> int" where
  "setDate tz d dt =
     (let t = LocalTime tz d;
          newDate = MakeDate (MakeDay (YearFromTime t) (MonthFromTime t) dt) (TimeWithinDay t)
      in UTC tz newDate)"

text \<open>
  \<^verbatim>\<open>toISOString().slice(0, 10)\<close> is the UTC date as \<^verbatim>\<open>YYYY-MM-DD\<close> (for the years 0 to
  9999).
\<close>

definition pad2 :: "int \<Rightarrow> string" where
  "pad2 n = (if n < 10 then ''0'' else []) @ digits (nat n)"

definition pad4 :: "int \<Rightarrow> string" where
  "pad4 n =
     (if n < 10 then ''000'' else if n < 100 then ''00'' else if n < 1000 then ''0'' else [])
       @ digits (nat n)"

definition toISOString_date :: "int \<Rightarrow> string" where
  "toISOString_date d =
     pad4 (YearFromTime d) @ ''-'' @ pad2 (MonthFromTime d) @ ''-'' @ pad2 (DateFromTime d)"

text \<open>
  Lines 140 to 142 for \<open>n = i + 1\<close>, with \<open>now\<close> the value of \<^verbatim>\<open>new Date()\<close>:
  \<^verbatim>\<open>d.setDate(d.getDate() + n); d.toISOString().slice(0, 10)\<close>.
\<close>

definition isoDateAfter_js :: "TimeZone \<Rightarrow> int \<Rightarrow> nat \<Rightarrow> string" where
  "isoDateAfter_js tz now n =
     (let d = now;
          d = setDate tz d (getDate tz d + int n)
      in toISOString_date d)"

section \<open>validatePromoCode\<close>

record Promo =
  ptype :: promo_type
  pvalue :: number

definition promos :: "(string \<times> Promo) list" where
  "promos =
     [(''SAVE10'', \<lparr>ptype = percentage, pvalue = 10\<rparr>),
      (''FLAT100'', \<lparr>ptype = flat, pvalue = 100\<rparr>),
      (''WELCOME20'', \<lparr>ptype = percentage, pvalue = 20\<rparr>)]"

definition validatePromoCode_static :: "string \<Rightarrow> number \<Rightarrow> error + PromoValidation" where
  "validatePromoCode_static code subtotal =
     (case get_property promos (toUpperCase code) of
        Absent \<Rightarrow>
          Inr \<lparr>pv_success = False, pv_data = None, pv_message = Some ''Invalid promo code''\<rparr>
      | Own p \<Rightarrow>
          (let discount =
                 (if ptype p = percentage then Math_round ((subtotal * pvalue p) / 100)
                  else pvalue p)
           in Inr \<lparr>pv_success = True,
                   pv_data = Some \<lparr>pd_code = toUpperCase code, pd_type = Some (ptype p),
                                   pd_value = Some (pvalue p), pd_discount = Some discount\<rparr>,
                   pv_message = None\<rparr>)
      | Inherited \<Rightarrow>
          Inr \<lparr>pv_success = True,
                pv_data = Some \<lparr>pd_code = toUpperCase code, pd_type = None,
                                pd_value = None, pd_discount = None\<rparr>,
                pv_message = None\<rparr>)"

definition validatePromoCode :: "Env \<Rightarrow> string \<Rightarrow> number \<Rightarrow> error + PromoValidation" where
  "validatePromoCode env code subtotal =
     (if configured env then
        (case api_post_promo_validate env code subtotal of
           Inr response \<Rightarrow> Inr response
         | Inl err \<Rightarrow> validatePromoCode_static code subtotal)
      else validatePromoCode_static code subtotal)"

section \<open>getExperiences\<close>

text \<open>\<^verbatim>\<open>json.experiences || []\<close>: an array, even an empty one, is truthy.\<close>

definition experiences_or_empty :: "StaticDocument \<Rightarrow> RawExperience list" where
  "experiences_or_empty json = (case experiences json of Some es \<Rightarrow> es | None \<Rightarrow> [])"

definition toExperience :: "RawExperience \<Rightarrow> Experience" where
  "toExperience e =
     \<lparr>exp_id = String (raw_id e), exp_name = raw_name e, exp_location = raw_location e,
      exp_description = raw_description e, exp_image = raw_image e, exp_price = raw_price e\<rparr>"

definition getExperiences_static :: "Env \<Rightarrow> error + Experience list" where
  "getExperiences_static env =
     (case fetch_experiences_json env of
        Inl err \<Rightarrow> Inl err
      | Inr json \<Rightarrow> Inr (map toExperience (experiences_or_empty json)))"

definition getExperiences :: "Env \<Rightarrow> error + Experience list" where
  "getExperiences env =
     (if configured env then
        (case api_get_experiences env of
           Inr response \<Rightarrow> Inr response
         | Inl err \<Rightarrow> getExperiences_static env)
      else getExperiences_static env)"

section \<open>getExperienceById\<close>

record SlotTime =
  st_time :: string
  st_slots :: number

definition times :: "SlotTime list" where
  "times =
     [\<lparr>st_time = ''07:00 am'', st_slots = 4\<rparr>,
      \<lparr>st_time = ''9:00 am'', st_slots = 2\<rparr>,
      \<lparr>st_time = ''11:00 am'', st_slots = 5\<rparr>,
      \<lparr>st_time = ''1:00 pm'', st_slots = 0\<rparr>]"

text \<open>The inner loop \<^verbatim>\<open>for (const t of times) out.push(...)\<close>.\<close>

primrec push_times :: "RawExperience \<Rightarrow> string \<Rightarrow> SlotTime list \<Rightarrow> RawSlot list \<Rightarrow> RawSlot list" where
  "push_times found d [] out = out"
| "push_times found d (t # ts) out =
     push_times found d ts
       (out @ [\<lparr>rs_id = IdString (String (raw_id found) @ ''-'' @ d @ ''-'' @ st_time t),
                rs_date = d, rs_time = st_time t,
                rs_availableSpots = st_slots t, rs_totalSpots = 10\<rparr>])"

text \<open>The outer loop \<^verbatim>\<open>for (let i = 0; i < 5; i++)\<close>.\<close>

function days_loop :: "Env \<Rightarrow> RawExperience \<Rightarrow> nat \<Rightarrow> RawSlot list \<Rightarrow> RawSlot list" where
  "days_loop env found i out =
     (if i < 5 then
        days_loop env found (i + 1) (push_times found (isoDateAfter env (i + 1)) times out)
      else out)"
  by pat_completeness auto
termination
  by (relation "measure (\<lambda>(env, found, i, out). 5 - i)") auto

declare days_loop.simps [simp del]

definition ensureSlots :: "Env \<Rightarrow> RawExperience \<Rightarrow> RawSlot list" where
  "ensureSlots env found =
     (case raw_slots found of
        Some ss \<Rightarrow> if length ss > 0 then ss else days_loop env found 0 []
      | None \<Rightarrow> days_loop env found 0 [])"

definition toSlot :: "RawExperience \<Rightarrow> RawSlot \<Rightarrow> Slot" where
  "toSlot found s =
     \<lparr>slot_id = String (rs_id s), slot_experienceId = String (raw_id found),
      slot_date = rs_date s, slot_time = rs_time s,
      slot_availableSpots = rs_availableSpots s, slot_totalSpots = rs_totalSpots s\<rparr>"

definition getExperienceById_static :: "Env \<Rightarrow> string \<Rightarrow> error + ExperienceDetail" where
  "getExperienceById_static env i =
     (case fetch_experiences_json env of
        Inl err \<Rightarrow> Inl err
      | Inr json \<Rightarrow>
          (case find (\<lambda>e. String (raw_id e) = i) (experiences_or_empty json) of
             None \<Rightarrow> Inl (Error ''Experience not found in static data'')
           | Some found \<Rightarrow>
               Inr \<lparr>exp_id = String (raw_id found), exp_name = raw_name found,
                     exp_location = raw_location found,
                     exp_description = raw_description found,
                     exp_image = raw_image found, exp_price = raw_price found,
                     slots = map (toSlot found) (ensureSlots env found)\<rparr>))"

definition getExperienceById :: "Env \<Rightarrow> string \<Rightarrow> error + ExperienceDetail" where
  "getExperienceById env i =
     (if configured env then
        (case api_get_experience env i of
           Inr response \<Rightarrow> Inr response
         | Inl err \<Rightarrow> getExperienceById_static env i)
      else getExperienceById_static env i)"

section \<open>createBooking\<close>

text \<open>
  \<^verbatim>\<open>getExperienceById(...).catch(() => null)\<close> turns every failure of the lookup into
  \<^verbatim>\<open>null\<close>; \<^verbatim>\<open>booking.quantity || 1\<close> replaces a zero quantity by one.
\<close>

definition createBooking_static :: "Env \<Rightarrow> BookingRequest \<Rightarrow> error + BookingResponse" where
  "createBooking_static env booking =
     (let priceRes = (case getExperienceById env (experienceId booking) of
                        Inr detail \<Rightarrow> Some detail
                      | Inl err \<Rightarrow> None);
          unit = (case priceRes of Some detail \<Rightarrow> exp_price detail | None \<Rightarrow> 1000);
          qty = (if quantity booking = 0 then 1 else quantity booking);
          base = unit * qty;
          taxes = Math_round (base * 0.05);
          total = base + taxes
      in Inr \<lparr>bk_success = True,
              bk_message = ''Simulated booking (static demo).'',
              bk_data = Some
                \<lparr>bookingRef = ''DEMO-'' @ digits (Date_now env),
                 experienceName =
                   (case priceRes of
                      Some detail \<Rightarrow> if exp_name detail = [] then ''Experience'' else exp_name detail
                    | None \<Rightarrow> ''Experience''),
                 bk_date = date booking, bk_time = time booking,
                 bk_quantity = qty, total = total\<rparr>\<rparr>)"

definition createBooking :: "Env \<Rightarrow> BookingRequest \<Rightarrow> error + BookingResponse" where
  "createBooking env booking =
     (if configured env then
        (case api_post_bookings env booking of
           Inr response \<Rightarrow> Inr response
         | Inl err \<Rightarrow> createBooking_static env booking)
      else createBooking_static env booking)"

section \<open>Example inputs\<close>

definition example_calendar :: "nat \<Rightarrow> string" where
  "example_calendar n = ''2026-11-'' @ (if n < 8 then ''0'' else []) @ digits (2 + n)"

definition kayaking :: RawExperience where
  "kayaking =
     \<lparr>raw_id = IdNumber 1, raw_name = ''Kayaking'', raw_location = ''Udupi'',
      raw_description = ''Curated small-group experience.'',
      raw_image = ''/images/kayaking.jpg'', raw_price = 1000,
      raw_slots = Some [\<lparr>rs_id = IdNumber 11, rs_date = ''2026-11-03'', rs_time = ''07:00 am'',
                         rs_availableSpots = 4, rs_totalSpots = 10\<rparr>]\<rparr>"

definition kayaking_twin :: RawExperience where
  "kayaking_twin =
     \<lparr>raw_id = IdString ''1'', raw_name = ''Kayaking at dusk'', raw_location = ''Udupi'',
      raw_description = ''Same id once stringified, no slots.'',
      raw_image = ''/images/dusk.jpg'', raw_price = 1200, raw_slots = None\<rparr>"

definition coffee_trail :: RawExperience where
  "coffee_trail =
     \<lparr>raw_id = IdString ''coffee'', raw_name = ''Coffee Trail'', raw_location = ''Coorg'',
      raw_description = ''Walk through the estate.'',
      raw_image = ''/images/coffee.jpg'', raw_price = 1 / 2, raw_slots = Some []\<rparr>"

definition example_document :: StaticDocument where
  "example_document = \<lparr>experiences = Some [kayaking, kayaking_twin, coffee_trail]\<rparr>"

text \<open>No backend configured: \<^verbatim>\<open>VITE_API_URL\<close> is not set.\<close>

definition static_env :: "StaticDocument \<Rightarrow> Env" where
  "static_env doc =
     \<lparr>API_BASE_URL = None,
      api_get_experiences = Inl (AxiosError ''Network Error''),
      api_get_experience = (\<lambda>i. Inl (AxiosError ''Network Error'')),
      api_post_bookings = (\<lambda>booking. Inl (AxiosError ''Network Error'')),
      api_post_promo_validate = (\<lambda>code subtotal. Inl (AxiosError ''Network Error'')),
      fetch_experiences_json = Inr doc,
      Date_now = 1793606400000,
      isoDateAfter = example_calendar\<rparr>"

text \<open>A backend is configured and every request to it fails.\<close>

definition offline_env :: "StaticDocument \<Rightarrow> Env" where
  "offline_env doc = (static_env doc)\<lparr>API_BASE_URL := Some ''http://localhost:5000/api''\<rparr>"

text \<open>The same situation one day later, with another clock and another calendar.\<close>

definition later_env :: "StaticDocument \<Rightarrow> Env" where
  "later_env doc =
     (offline_env doc)\<lparr>Date_now := 1793692800000,
                         isoDateAfter := (\<lambda>n. example_calendar (n + 1))\<rparr>"

text \<open>
  A static document with other slot data: every entry keeps its fields and gets the
  slots \<open>f\<close> assigns to it.
\<close>

definition with_slots :: "(RawExperience \<Rightarrow> RawSlot list option) \<Rightarrow> StaticDocument \<Rightarrow> StaticDocument" where
  "with_slots f json =
     json\<lparr>experiences := map_option (map (\<lambda>e. e\<lparr>raw_slots := f e\<rparr>)) (experiences json)\<rparr>"

text \<open>
  The zone Europe/Berlin around the start of summer time 2026: UTC+1 until
  2026-03-29T01:00:00Z, UTC+2 from then on; a local time in the skipped hour is read with
  the offset before the change.
\<close>

definition Europe_Berlin :: TimeZone where
  "Europe_Berlin =
     \<lparr>LocalTZA_utc = (\<lambda>t. if t < 1774746000000 then 3600000 else 7200000),
      LocalTZA_local = (\<lambda>t. if t < 1774746000000 + 7200000 then 3600000 else 7200000)\<rparr>"

text \<open>No backend, the clock at 2026-03-27T00:30:00Z, which is 01:30 in Berlin.\<close>

definition berlin_env :: "StaticDocument \<Rightarrow> Env" where
  "berlin_env doc =
     (static_env doc)\<lparr>Date_now := 1774571400000,
                        isoDateAfter := isoDateAfter_js Europe_Berlin 1774571400000\<rparr>"

definition example_booking :: "string \<Rightarrow> number \<Rightarrow> BookingRequest" where
  "example_booking i q =
     \<lparr>experienceId = i, slotId = ''11'', fullName = ''Asha Rao'', email = ''asha@example.com'',
      quantity = q, promoCode = None, date = ''2026-11-03'', time = ''07:00 am''\<rparr>"

section \<open>Facts about strings and the promotion table\<close>

lemma upcase_char_not_lower: "\<not> is_lower (upcase_char c)"
proof (cases "is_lower c")
  case True
  then have "(of_char c :: nat) - 32 < 256"
    unfolding is_lower_def by linarith
  then have "of_char (char_of ((of_char c :: nat) - 32)) = (of_char c :: nat) - 32"
    by simp
  with True show ?thesis
    unfolding upcase_char_def is_lower_def by auto
next
  case False
  then show ?thesis by (simp add: upcase_char_def)
qed

lemma toUpperCase_no_lower: "c \<in> set (toUpperCase s) \<Longrightarrow> \<not> is_lower c"
  by (auto simp: toUpperCase_def upcase_char_not_lower)

lemma Object_prototype_lower: "k \<in> set Object_prototype \<Longrightarrow> \<exists>c \<in> set k. is_lower c"
  by (auto simp: Object_prototype_def is_lower_def)

lemma toUpperCase_not_inherited: "toUpperCase s \<notin> set Object_prototype"
  using Object_prototype_lower toUpperCase_no_lower by blast

lemma get_property_promos:
  "get_property promos (toUpperCase s) =
     (case map_of promos (toUpperCase s) of Some p \<Rightarrow> Own p | None \<Rightarrow> Absent)"
  by (simp add: get_property_def toUpperCase_not_inherited split: option.splits)

lemma map_of_promos:
  "map_of promos k =
     (if k = ''SAVE10'' then Some \<lparr>ptype = percentage, pvalue = 10\<rparr>
      else if k = ''FLAT100'' then Some \<lparr>ptype = flat, pvalue = 100\<rparr>
      else if k = ''WELCOME20'' then Some \<lparr>ptype = percentage, pvalue = 20\<rparr>
      else None)"
  by (simp add: promos_def)

lemma toUpperCase_save10: "toUpperCase ''save10'' = ''SAVE10''"
  by code_simp

lemma toUpperCase_FLAT100: "toUpperCase ''FLAT100'' = ''FLAT100''"
  by code_simp

lemma toUpperCase_bogus: "toUpperCase ''bogus'' = ''BOGUS''"
  by code_simp

lemma char_of_digit:
  "char_of (48::nat) = CHR ''0''" "char_of (49::nat) = CHR ''1''" "char_of (50::nat) = CHR ''2''"
  "char_of (51::nat) = CHR ''3''" "char_of (52::nat) = CHR ''4''" "char_of (53::nat) = CHR ''5''"
  "char_of (54::nat) = CHR ''6''" "char_of (55::nat) = CHR ''7''" "char_of (56::nat) = CHR ''8''"
  "char_of (57::nat) = CHR ''9''"
  by code_simp+

section \<open>Facts about the four operations\<close>

lemma validatePromoCode_fallback_eq:
  "fallback_path env (api_post_promo_validate env code subtotal) \<Longrightarrow>
   validatePromoCode env code subtotal = validatePromoCode_static code subtotal"
  by (auto simp: fallback_path_def validatePromoCode_def isl_def)

lemma getExperiences_fallback_eq:
  "fallback_path env (api_get_experiences env) \<Longrightarrow>
   getExperiences env = getExperiences_static env"
  by (auto simp: fallback_path_def getExperiences_def isl_def)

lemma getExperienceById_fallback_eq:
  "fallback_path env (api_get_experience env i) \<Longrightarrow>
   getExperienceById env i = getExperienceById_static env i"
  by (auto simp: fallback_path_def getExperienceById_def isl_def)

lemma createBooking_fallback_eq:
  "fallback_path env (api_post_bookings env booking) \<Longrightarrow>
   createBooking env booking = createBooking_static env booking"
  by (auto simp: fallback_path_def createBooking_def isl_def)

lemma toExperience_ignores_slots: "toExperience (e\<lparr>raw_slots := ss\<rparr>) = toExperience e"
  by (simp add: toExperience_def)

lemma find_present: "e \<in> set es \<Longrightarrow> P e \<Longrightarrow> \<exists>found. find P es = Some found \<and> P found"
  by (induction es) auto

lemma lookup_found:
  assumes "fallback_path env (api_get_experience env i)"
      and "fetch_experiences_json env = Inr json"
      and "find (\<lambda>e. String (raw_id e) = i) (experiences_or_empty json) = Some found"
  shows "getExperienceById env i =
           Inr \<lparr>exp_id = String (raw_id found), exp_name = raw_name found,
                 exp_location = raw_location found,
                 exp_description = raw_description found,
                 exp_image = raw_image found, exp_price = raw_price found,
                 slots = map (toSlot found) (ensureSlots env found)\<rparr>"
  using assms(2,3)
  by (simp add: getExperienceById_fallback_eq [OF assms(1)] getExperienceById_static_def)

lemma days_loop_schedule:
  "days_loop env found 0 [] =
     concat (map (\<lambda>n. map (\<lambda>t. \<lparr>rs_id = IdString (String (raw_id found) @ ''-'' @ isoDateAfter env n @ ''-'' @ st_time t),
                                   rs_date = isoDateAfter env n, rs_time = st_time t,
                                   rs_availableSpots = st_slots t, rs_totalSpots = 10\<rparr>) times)
                 [1, 2, 3, 4, 5])"
  by (simp add: days_loop.simps times_def eval_nat_numeral)

lemma ensureSlots_without_slots:
  "raw_slots found = None \<or> raw_slots found = Some [] \<Longrightarrow>
   ensureSlots env found = days_loop env found 0 []"
  by (auto simp: ensureSlots_def)

lemma Math_round_of_int_add: "Math_round (of_int n + x) = of_int n + Math_round x"
  unfolding Math_round_def by (simp add: add.assoc)

lemma Math_round_Ints_add: "b \<in> \<int> \<Longrightarrow> Math_round (b + x) = b + Math_round x"
  by (auto simp: Ints_def Math_round_of_int_add)

lemma createBooking_static_found:
  "getExperienceById env (experienceId booking) = Inr detail \<Longrightarrow>
   createBooking_static env booking =
     Inr \<lparr>bk_success = True, bk_message = ''Simulated booking (static demo).'',
           bk_data = Some
             \<lparr>bookingRef = ''DEMO-'' @ digits (Date_now env),
              experienceName = (if exp_name detail = [] then ''Experience'' else exp_name detail),
              bk_date = date booking, bk_time = time booking,
              bk_quantity = (if quantity booking = 0 then 1 else quantity booking),
              total = exp_price detail * (if quantity booking = 0 then 1 else quantity booking) +
                      Math_round (exp_price detail *
                        (if quantity booking = 0 then 1 else quantity booking) * 0.05)\<rparr>\<rparr>"
  by (simp add: createBooking_static_def Let_def)

lemma createBooking_static_missing:
  "getExperienceById env (experienceId booking) = Inl err \<Longrightarrow>
   createBooking_static env booking =
     Inr \<lparr>bk_success = True, bk_message = ''Simulated booking (static demo).'',
           bk_data = Some
             \<lparr>bookingRef = ''DEMO-'' @ digits (Date_now env),
              experienceName = ''Experience'',
              bk_date = date booking, bk_time = time booking,
              bk_quantity = (if quantity booking = 0 then 1 else quantity booking),
              total = 1000 * (if quantity booking = 0 then 1 else quantity booking) +
                      Math_round (1000 *
                        (if quantity booking = 0 then 1 else quantity booking) * 0.05)\<rparr>\<rparr>"
  by (simp add: createBooking_static_def Let_def)

lemma find_with_slots:
  "find (\<lambda>e. String (raw_id e) = i) (map (\<lambda>e. e\<lparr>raw_slots := f e\<rparr>) es) =
     map_option (\<lambda>e. e\<lparr>raw_slots := f e\<rparr>) (find (\<lambda>e. String (raw_id e) = i) es)"
  by (induction es) simp_all

lemma experiences_with_slots:
  "experiences_or_empty (with_slots f json) =
     map (\<lambda>e. e\<lparr>raw_slots := f e\<rparr>) (experiences_or_empty json)"
  by (cases "experiences json") (simp_all add: experiences_or_empty_def with_slots_def)

lemma lookup_with_slots:
  assumes "fetch_experiences_json env = Inr json"
  shows "(\<exists>e e'. getExperienceById (env\<lparr>fetch_experiences_json := Inr (with_slots f json)\<rparr>) i = Inl e' \<and>
                 getExperienceById env i = Inl e) \<or>
         (\<exists>d d'. getExperienceById (env\<lparr>fetch_experiences_json := Inr (with_slots f json)\<rparr>) i = Inr d' \<and>
                 getExperienceById env i = Inr d \<and>
                 exp_price d' = exp_price d \<and> exp_name d' = exp_name d)"
proof (cases "configured env \<and> \<not> isl (api_get_experience env i)")
  case True
  then obtain r where "api_get_experience env i = Inr r"
    by (cases "api_get_experience env i") auto
  with True show ?thesis
    by (simp add: getExperienceById_def configured_def)
next
  case False
  then have fb: "fallback_path env (api_get_experience env i)"
    by (cases "api_get_experience env i") (auto simp: fallback_path_def)
  let ?env' = "env\<lparr>fetch_experiences_json := Inr (with_slots f json)\<rparr>"
  from fb have fb': "fallback_path ?env' (api_get_experience ?env' i)"
    by (simp add: fallback_path_def configured_def)
  show ?thesis
    using assms
    by (cases "find (\<lambda>e. String (raw_id e) = i) (experiences_or_empty json)")
       (simp_all add: getExperienceById_fallback_eq [OF fb] getExperienceById_fallback_eq [OF fb']
          getExperienceById_static_def experiences_with_slots find_with_slots)
qed

lemma createBooking_static_with_slots:
  assumes "fetch_experiences_json env = Inr json"
  shows "createBooking_static (env\<lparr>fetch_experiences_json := Inr (with_slots f json)\<rparr>) booking =
         createBooking_static env booking"
  using lookup_with_slots [OF assms, of f "experienceId booking"]
proof (elim disjE exE conjE)
  fix e e'
  assume "getExperienceById (env\<lparr>fetch_experiences_json := Inr (with_slots f json)\<rparr>)
            (experienceId booking) = Inl e'"
    and "getExperienceById env (experienceId booking) = Inl e"
  then show ?thesis
    by (simp add: createBooking_static_missing)
next
  fix d d'
  assume "getExperienceById (env\<lparr>fetch_experiences_json := Inr (with_slots f json)\<rparr>)
            (experienceId booking) = Inr d'"
    and "getExperienceById env (experienceId booking) = Inr d"
    and "exp_price d' = exp_price d" and "exp_name d' = exp_name d"
  then show ?thesis
    by (simp add: createBooking_static_found)
qed

section \<open>Facts about the example inputs\<close>

lemma fallback_static: "fallback_path (static_env doc) r"
  by (simp add: fallback_path_def configured_def static_env_def)

lemma fallback_offline_list: "fallback_path (offline_env doc) (api_get_experiences (offline_env doc))"
  by (simp add: fallback_path_def offline_env_def static_env_def)

lemma fallback_later_list: "fallback_path (later_env doc) (api_get_experiences (later_env doc))"
  by (simp add: fallback_path_def later_env_def offline_env_def static_env_def)

lemma fallback_offline_detail:
  "fallback_path (offline_env doc) (api_get_experience (offline_env doc) i)"
  by (simp add: fallback_path_def offline_env_def static_env_def)

lemma fallback_offline_booking:
  "fallback_path (offline_env doc) (api_post_bookings (offline_env doc) booking)"
  by (simp add: fallback_path_def offline_env_def static_env_def)

lemma fetch_static: "fetch_experiences_json (static_env doc) = Inr doc"
  by (simp add: static_env_def)

lemma fetch_offline: "fetch_experiences_json (offline_env doc) = Inr doc"
  by (simp add: offline_env_def static_env_def)

lemma fetch_later: "fetch_experiences_json (later_env doc) = Inr doc"
  by (simp add: later_env_def offline_env_def static_env_def)

lemma Date_now_static: "Date_now (static_env doc) = 1793606400000"
  by (simp add: static_env_def)

lemma Date_now_offline: "Date_now (offline_env doc) = 1793606400000"
  by (simp add: offline_env_def static_env_def)

lemma digits_example_clock: "digits 1793606400000 = ''1793606400000''"
  by (simp add: digits.simps char_of_digit)

lemma String_1: "String (IdNumber 1) = ''1''"
  by code_simp

lemma String_11: "String (IdNumber 11) = ''11''"
  by code_simp

lemma example_entries:
  "experiences_or_empty example_document = [kayaking, kayaking_twin, coffee_trail]"
  by (simp add: experiences_or_empty_def example_document_def)

lemma example_ids:
  "String (raw_id kayaking) = ''1''"
  "String (raw_id kayaking_twin) = ''1''"
  "String (raw_id coffee_trail) = ''coffee''"
  by (simp_all add: kayaking_def kayaking_twin_def coffee_trail_def String_1 del: String.simps(2))

lemma example_find_1:
  "find (\<lambda>e. String (raw_id e) = ''1'') (experiences_or_empty example_document) = Some kayaking"
  by (simp add: example_entries example_ids)

lemma example_find_coffee:
  "find (\<lambda>e. String (raw_id e) = ''coffee'') (experiences_or_empty example_document) =
     Some coffee_trail"
  by (simp add: example_entries example_ids)

lemma example_detail_1:
  "getExperienceById (static_env example_document) ''1'' =
     Inr \<lparr>exp_id = ''1'', exp_name = ''Kayaking'', exp_location = ''Udupi'',
           exp_description = ''Curated small-group experience.'',
           exp_image = ''/images/kayaking.jpg'', exp_price = 1000,
           slots = [\<lparr>slot_id = ''11'', slot_experienceId = ''1'', slot_date = ''2026-11-03'',
                     slot_time = ''07:00 am'', slot_availableSpots = 4,
                     slot_totalSpots = 10\<rparr>]\<rparr>"
proof -
  have "getExperienceById (static_env example_document) ''1'' =
          getExperienceById_static (static_env example_document) ''1''"
    by (rule getExperienceById_fallback_eq [OF fallback_static])
  also have "\<dots> =
     Inr \<lparr>exp_id = String (raw_id kayaking), exp_name = raw_name kayaking,
           exp_location = raw_location kayaking,
           exp_description = raw_description kayaking,
           exp_image = raw_image kayaking, exp_price = raw_price kayaking,
           slots = map (toSlot kayaking) (ensureSlots (static_env example_document) kayaking)\<rparr>"
    by (simp add: getExperienceById_static_def fetch_static example_find_1)
  also have "\<dots> =
     Inr \<lparr>exp_id = ''1'', exp_name = ''Kayaking'', exp_location = ''Udupi'',
           exp_description = ''Curated small-group experience.'',
           exp_image = ''/images/kayaking.jpg'', exp_price = 1000,
           slots = [\<lparr>slot_id = ''11'', slot_experienceId = ''1'', slot_date = ''2026-11-03'',
                     slot_time = ''07:00 am'', slot_availableSpots = 4,
                     slot_totalSpots = 10\<rparr>]\<rparr>"
    by (simp add: kayaking_def ensureSlots_def toSlot_def String_1 String_11 del: String.simps(2))
  finally show ?thesis .
qed

lemma example_booking_fields:
  "experienceId (example_booking i q) = i"
  "quantity (example_booking i q) = q"
  "date (example_booking i q) = ''2026-11-03''"
  "time (example_booking i q) = ''07:00 am''"
  by (simp_all add: example_booking_def)

lemma example_booking_coffee:
  "createBooking (static_env example_document) (example_booking ''coffee'' 1) =
     Inr \<lparr>bk_success = True, bk_message = ''Simulated booking (static demo).'',
           bk_data = Some \<lparr>bookingRef = ''DEMO-1793606400000'', experienceName = ''Coffee Trail'',
                           bk_date = ''2026-11-03'', bk_time = ''07:00 am'',
                           bk_quantity = 1, total = 1 / 2\<rparr>\<rparr>"
proof -
  have "getExperienceById (static_env example_document)
          (experienceId (example_booking ''coffee'' 1)) =
           Inr \<lparr>exp_id = String (raw_id coffee_trail), exp_name = raw_name coffee_trail,
                 exp_location = raw_location coffee_trail,
                 exp_description = raw_description coffee_trail,
                 exp_image = raw_image coffee_trail, exp_price = raw_price coffee_trail,
                 slots = map (toSlot coffee_trail)
                           (ensureSlots (static_env example_document) coffee_trail)\<rparr>"
    unfolding example_booking_fields
    by (rule lookup_found [OF fallback_static fetch_static example_find_coffee])
  from createBooking_static_found [OF this] show ?thesis
    by (simp add: createBooking_fallback_eq [OF fallback_static] digits_example_clock
        Date_now_static example_booking_fields coffee_trail_def Math_round_def)
qed

lemma example_booking_zero:
  "createBooking (static_env example_document) (example_booking ''1'' 0) =
     Inr \<lparr>bk_success = True, bk_message = ''Simulated booking (static demo).'',
           bk_data = Some \<lparr>bookingRef = ''DEMO-1793606400000'', experienceName = ''Kayaking'',
                           bk_date = ''2026-11-03'', bk_time = ''07:00 am'',
                           bk_quantity = 1, total = 1050\<rparr>\<rparr>"
proof -
  have "getExperienceById (static_env example_document) (experienceId (example_booking ''1'' 0)) =
     Inr \<lparr>exp_id = ''1'', exp_name = ''Kayaking'', exp_location = ''Udupi'',
           exp_description = ''Curated small-group experience.'',
           exp_image = ''/images/kayaking.jpg'', exp_price = 1000,
           slots = [\<lparr>slot_id = ''11'', slot_experienceId = ''1'', slot_date = ''2026-11-03'',
                     slot_time = ''07:00 am'', slot_availableSpots = 4,
                     slot_totalSpots = 10\<rparr>]\<rparr>"
    unfolding example_booking_fields by (rule example_detail_1)
  from createBooking_static_found [OF this] show ?thesis
    by (simp add: createBooking_fallback_eq [OF fallback_static] digits_example_clock
        Date_now_static example_booking_fields Math_round_def)
qed

lemma berlin_dates:
  "isoDateAfter_js Europe_Berlin 1774571400000 (Suc 0) = ''2026-03-28''"
  "isoDateAfter_js Europe_Berlin 1774571400000 2 = ''2026-03-29''"
  "isoDateAfter_js Europe_Berlin 1774571400000 3 = ''2026-03-29''"
  "isoDateAfter_js Europe_Berlin 1774571400000 4 = ''2026-03-30''"
  "isoDateAfter_js Europe_Berlin 1774571400000 5 = ''2026-03-31''"
  by code_simp+

lemma berlin_today:
  "toISOString_date 1774571400000 = ''2026-03-27''"
  "toISOString_date (LocalTime Europe_Berlin 1774571400000) = ''2026-03-27''"
  by code_simp+

lemma fallback_berlin: "fallback_path (berlin_env doc) r"
  by (simp add: fallback_path_def configured_def berlin_env_def static_env_def)

lemma fetch_berlin: "fetch_experiences_json (berlin_env doc) = Inr doc"
  by (simp add: berlin_env_def static_env_def)

lemma calendar_berlin: "isoDateAfter (berlin_env doc) = isoDateAfter_js Europe_Berlin 1774571400000"
  by (simp add: berlin_env_def)

section \<open>Promo code validation on the fallback path\<close>

text \<open>
  Claim C1. On the fallback path \<open>validatePromoCode\<close> looks the upper-cased code up in a
  table of exactly three promotions (SAVE10: 10 percent, FLAT100: 100 flat, WELCOME20:
  20 percent). An unknown code gives a returned failure object with the message
  "Invalid promo code", never a thrown error; a known code gives success with the discount
  \<open>Math_round (subtotal * value / 100)\<close> for a percentage and the flat value otherwise.
  In particular ("save10", 1000) and ("FLAT100", 50) both give the discount 100. The
  properties inherited from \<^verbatim>\<open>Object.prototype\<close> are never hit, because an upper-cased
  key has no lower-case letter.
\<close>

theorem validatePromoCode_fallback:
  assumes "fallback_path env (api_post_promo_validate env code subtotal)"
  shows
    "promos = [(''SAVE10'', \<lparr>ptype = percentage, pvalue = 10\<rparr>),
               (''FLAT100'', \<lparr>ptype = flat, pvalue = 100\<rparr>),
               (''WELCOME20'', \<lparr>ptype = percentage, pvalue = 20\<rparr>)] \<and>
     (toUpperCase code \<notin> {''SAVE10'', ''FLAT100'', ''WELCOME20''} \<longrightarrow>
        validatePromoCode env code subtotal =
          Inr \<lparr>pv_success = False, pv_data = None, pv_message = Some ''Invalid promo code''\<rparr>) \<and>
     (\<forall>p. map_of promos (toUpperCase code) = Some p \<longrightarrow>
        validatePromoCode env code subtotal =
          Inr \<lparr>pv_success = True,
                pv_data = Some \<lparr>pd_code = toUpperCase code, pd_type = Some (ptype p),
                                pd_value = Some (pvalue p),
                                pd_discount = Some (case ptype p of
                                    percentage \<Rightarrow> Math_round (subtotal * pvalue p / 100)
                                  | flat \<Rightarrow> pvalue p)\<rparr>,
                pv_message = None\<rparr>) \<and>
     (code = ''save10'' \<and> subtotal = 1000 \<longrightarrow>
        (\<exists>d. validatePromoCode env code subtotal =
               Inr \<lparr>pv_success = True, pv_data = Some d, pv_message = None\<rparr> \<and>
             pd_discount d = Some 100)) \<and>
     (code = ''FLAT100'' \<and> subtotal = 50 \<longrightarrow>
        (\<exists>d. validatePromoCode env code subtotal =
               Inr \<lparr>pv_success = True, pv_data = Some d, pv_message = None\<rparr> \<and>
             pd_discount d = Some 100))"
proof -
  note eq = validatePromoCode_fallback_eq [OF assms]
  have table: "promos = [(''SAVE10'', \<lparr>ptype = percentage, pvalue = 10\<rparr>),
               (''FLAT100'', \<lparr>ptype = flat, pvalue = 100\<rparr>),
               (''WELCOME20'', \<lparr>ptype = percentage, pvalue = 20\<rparr>)]"
    by (simp add: promos_def)
  have unknown: "toUpperCase code \<notin> {''SAVE10'', ''FLAT100'', ''WELCOME20''} \<longrightarrow>
        validatePromoCode env code subtotal =
          Inr \<lparr>pv_success = False, pv_data = None, pv_message = Some ''Invalid promo code''\<rparr>"
    by (simp add: eq validatePromoCode_static_def get_property_promos map_of_promos)
  have known: "\<forall>p. map_of promos (toUpperCase code) = Some p \<longrightarrow>
        validatePromoCode env code subtotal =
          Inr \<lparr>pv_success = True,
                pv_data = Some \<lparr>pd_code = toUpperCase code, pd_type = Some (ptype p),
                                pd_value = Some (pvalue p),
                                pd_discount = Some (case ptype p of
                                    percentage \<Rightarrow> Math_round (subtotal * pvalue p / 100)
                                  | flat \<Rightarrow> pvalue p)\<rparr>,
                pv_message = None\<rparr>"
    by (auto simp: eq validatePromoCode_static_def get_property_promos split: promo_type.splits)
  have ex1: "code = ''save10'' \<and> subtotal = 1000 \<longrightarrow>
        (\<exists>d. validatePromoCode env code subtotal =
               Inr \<lparr>pv_success = True, pv_data = Some d, pv_message = None\<rparr> \<and>
             pd_discount d = Some 100)"
  proof (intro impI)
    assume c: "code = ''save10'' \<and> subtotal = 1000"
    have "validatePromoCode_static ''save10'' 1000 =
            Inr \<lparr>pv_success = True,
                  pv_data = Some \<lparr>pd_code = ''SAVE10'', pd_type = Some percentage,
                                  pd_value = Some 10, pd_discount = Some 100\<rparr>,
                  pv_message = None\<rparr>"
      unfolding validatePromoCode_static_def get_property_promos
      by (simp add: toUpperCase_save10 map_of_promos Math_round_def)
    with c eq show "\<exists>d. validatePromoCode env code subtotal =
               Inr \<lparr>pv_success = True, pv_data = Some d, pv_message = None\<rparr> \<and>
             pd_discount d = Some 100"
      by simp
  qed
  have ex2: "code = ''FLAT100'' \<and> subtotal = 50 \<longrightarrow>
        (\<exists>d. validatePromoCode env code subtotal =
               Inr \<lparr>pv_success = True, pv_data = Some d, pv_message = None\<rparr> \<and>
             pd_discount d = Some 100)"
  proof (intro impI)
    assume c: "code = ''FLAT100'' \<and> subtotal = 50"
    have "validatePromoCode_static ''FLAT100'' 50 =
            Inr \<lparr>pv_success = True,
                  pv_data = Some \<lparr>pd_code = ''FLAT100'', pd_type = Some flat,
                                  pd_value = Some 100, pd_discount = Some 100\<rparr>,
                  pv_message = None\<rparr>"
      unfolding validatePromoCode_static_def get_property_promos
      by (simp add: toUpperCase_FLAT100 map_of_promos)
    with c eq show "\<exists>d. validatePromoCode env code subtotal =
               Inr \<lparr>pv_success = True, pv_data = Some d, pv_message = None\<rparr> \<and>
             pd_discount d = Some 100"
      by simp
  qed
  from table unknown known ex1 ex2 show ?thesis by blast
qed

text \<open>An unknown code with a failing backend, and a known code without a backend.\<close>

theorem validatePromoCode_fallback_witness:
  "fallback_path (offline_env example_document)
     (api_post_promo_validate (offline_env example_document) ''bogus'' 1000) \<and>
   toUpperCase ''bogus'' \<notin> {''SAVE10'', ''FLAT100'', ''WELCOME20''} \<and>
   validatePromoCode (offline_env example_document) ''bogus'' 1000 =
     Inr \<lparr>pv_success = False, pv_data = None, pv_message = Some ''Invalid promo code''\<rparr> \<and>
   fallback_path (static_env example_document)
     (api_post_promo_validate (static_env example_document) ''save10'' 1000) \<and>
   map_of promos (toUpperCase ''save10'') = Some \<lparr>ptype = percentage, pvalue = 10\<rparr> \<and>
   validatePromoCode (static_env example_document) ''save10'' 1000 =
     Inr \<lparr>pv_success = True,
           pv_data = Some \<lparr>pd_code = ''SAVE10'', pd_type = Some percentage,
                           pd_value = Some 10, pd_discount = Some 100\<rparr>,
           pv_message = None\<rparr>"
proof -
  have f1: "fallback_path (offline_env example_document)
     (api_post_promo_validate (offline_env example_document) ''bogus'' 1000)"
    by (simp add: fallback_path_def offline_env_def static_env_def)
  have f2: "fallback_path (static_env example_document)
     (api_post_promo_validate (static_env example_document) ''save10'' 1000)"
    by (simp add: fallback_path_def configured_def static_env_def)
  have u: "toUpperCase ''bogus'' \<notin> {''SAVE10'', ''FLAT100'', ''WELCOME20''}"
    by (simp add: toUpperCase_bogus)
  have k: "map_of promos (toUpperCase ''save10'') = Some \<lparr>ptype = percentage, pvalue = 10\<rparr>"
    by (simp add: toUpperCase_save10 promos_def)
  from validatePromoCode_fallback [OF f1] u
  have r1: "validatePromoCode (offline_env example_document) ''bogus'' 1000 =
     Inr \<lparr>pv_success = False, pv_data = None, pv_message = Some ''Invalid promo code''\<rparr>"
    by blast
  from validatePromoCode_fallback [OF f2] k
  have r2: "validatePromoCode (static_env example_document) ''save10'' 1000 =
     Inr \<lparr>pv_success = True,
           pv_data = Some \<lparr>pd_code = ''SAVE10'', pd_type = Some percentage,
                           pd_value = Some 10, pd_discount = Some 100\<rparr>,
           pv_message = None\<rparr>"
    by (simp add: toUpperCase_save10 Math_round_def)
  from f1 f2 u k r1 r2 show ?thesis by blast
qed

section \<open>The list of experiences on the fallback path\<close>

text \<open>
  Claim C7. On the fallback path \<open>getExperiences\<close> maps every raw entry of the static
  document's \<open>experiences\<close> array, in order, to an \<open>Experience\<close> with exactly the fields
  id (stringified), name, location, description, image and price; a document without the
  array gives the empty list. Slot data is dropped: replacing the slots of the entries by
  anything else leaves the result unchanged.
\<close>

theorem getExperiences_fallback_maps:
  assumes "fallback_path env (api_get_experiences env)"
      and "fetch_experiences_json env = Inr json"
  shows "(\<forall>es. experiences json = Some es \<longrightarrow>
            getExperiences env =
              Inr (map (\<lambda>e. \<lparr>exp_id = String (raw_id e), exp_name = raw_name e,
                              exp_location = raw_location e,
                              exp_description = raw_description e,
                              exp_image = raw_image e, exp_price = raw_price e\<rparr>) es)) \<and>
         (experiences json = None \<longrightarrow> getExperiences env = Inr []) \<and>
         (\<forall>f. getExperiences (env\<lparr>fetch_experiences_json := Inr (with_slots f json)\<rparr>) =
              getExperiences env)"
proof -
  let ?env' = "\<lambda>f. env\<lparr>fetch_experiences_json := Inr (with_slots f json)\<rparr>"
  have fb: "fallback_path (?env' f) (api_get_experiences (?env' f))" for f
    using assms(1) by (simp add: fallback_path_def configured_def)
  have same: "map toExperience (experiences_or_empty (with_slots f json)) =
              map toExperience (experiences_or_empty json)" for f
    by (cases "experiences json")
       (simp_all add: experiences_or_empty_def with_slots_def toExperience_ignores_slots comp_def)
  have a: "\<forall>es. experiences json = Some es \<longrightarrow>
            getExperiences env =
              Inr (map (\<lambda>e. \<lparr>exp_id = String (raw_id e), exp_name = raw_name e,
                              exp_location = raw_location e,
                              exp_description = raw_description e,
                              exp_image = raw_image e, exp_price = raw_price e\<rparr>) es)"
    using assms
    by (simp add: getExperiences_fallback_eq getExperiences_static_def
        experiences_or_empty_def toExperience_def)
  have b: "experiences json = None \<longrightarrow> getExperiences env = Inr []"
    using assms
    by (simp add: getExperiences_fallback_eq getExperiences_static_def experiences_or_empty_def)
  have c: "\<forall>f. getExperiences (?env' f) = getExperiences env"
    using assms(2) same
    by (simp add: getExperiences_fallback_eq [OF fb] getExperiences_fallback_eq [OF assms(1)]
        getExperiences_static_def)
  from a b c show ?thesis by blast
qed

theorem getExperiences_fallback_maps_witness:
  "fallback_path (offline_env example_document)
     (api_get_experiences (offline_env example_document)) \<and>
   fetch_experiences_json (offline_env example_document) = Inr example_document \<and>
   experiences example_document = Some [kayaking, kayaking_twin, coffee_trail] \<and>
   getExperiences (offline_env example_document) =
     Inr [\<lparr>exp_id = ''1'', exp_name = ''Kayaking'', exp_location = ''Udupi'',
           exp_description = ''Curated small-group experience.'',
           exp_image = ''/images/kayaking.jpg'', exp_price = 1000\<rparr>,
          \<lparr>exp_id = ''1'', exp_name = ''Kayaking at dusk'', exp_location = ''Udupi'',
           exp_description = ''Same id once stringified, no slots.'',
           exp_image = ''/images/dusk.jpg'', exp_price = 1200\<rparr>,
          \<lparr>exp_id = ''coffee'', exp_name = ''Coffee Trail'', exp_location = ''Coorg'',
           exp_description = ''Walk through the estate.'',
           exp_image = ''/images/coffee.jpg'', exp_price = 1 / 2\<rparr>] \<and>
   experiences \<lparr>experiences = None\<rparr> = None \<and>
   getExperiences (static_env \<lparr>experiences = None\<rparr>) = Inr []"
proof -
  have e: "experiences example_document = Some [kayaking, kayaking_twin, coffee_trail]"
    by (simp add: example_document_def)
  from getExperiences_fallback_maps [OF fallback_offline_list fetch_offline] e
  have "getExperiences (offline_env example_document) =
          Inr (map (\<lambda>e. \<lparr>exp_id = String (raw_id e), exp_name = raw_name e,
                          exp_location = raw_location e,
                          exp_description = raw_description e,
                          exp_image = raw_image e, exp_price = raw_price e\<rparr>)
                 [kayaking, kayaking_twin, coffee_trail])"
    by blast
  then have r1: "getExperiences (offline_env example_document) =
     Inr [\<lparr>exp_id = ''1'', exp_name = ''Kayaking'', exp_location = ''Udupi'',
           exp_description = ''Curated small-group experience.'',
           exp_image = ''/images/kayaking.jpg'', exp_price = 1000\<rparr>,
          \<lparr>exp_id = ''1'', exp_name = ''Kayaking at dusk'', exp_location = ''Udupi'',
           exp_description = ''Same id once stringified, no slots.'',
           exp_image = ''/images/dusk.jpg'', exp_price = 1200\<rparr>,
          \<lparr>exp_id = ''coffee'', exp_name = ''Coffee Trail'', exp_location = ''Coorg'',
           exp_description = ''Walk through the estate.'',
           exp_image = ''/images/coffee.jpg'', exp_price = 1 / 2\<rparr>]"
    by (simp add: kayaking_def kayaking_twin_def coffee_trail_def String_1 del: String.simps(2))
  have n: "experiences \<lparr>experiences = None\<rparr> = None"
    by simp
  from getExperiences_fallback_maps [OF fallback_static fetch_static] n
  have r2: "getExperiences (static_env \<lparr>experiences = None\<rparr>) = Inr []"
    by blast
  from fallback_offline_list fetch_offline e r1 n r2 show ?thesis by blast
qed

text \<open>
  Claim C8. Two calls of \<open>getExperiences\<close> on the fallback path that read the same static
  document return the same list, whatever the clock, the calendar and the failed remote
  requests of the two calls are: the result has no time-derived field.
\<close>

theorem getExperiences_idempotent:
  assumes "fallback_path env1 (api_get_experiences env1)"
      and "fallback_path env2 (api_get_experiences env2)"
      and "fetch_experiences_json env1 = Inr json"
      and "fetch_experiences_json env2 = Inr json"
  shows "getExperiences env1 = getExperiences env2 \<and> (\<exists>xs. getExperiences env1 = Inr xs)"
  using assms
  by (simp add: getExperiences_fallback_eq getExperiences_static_def)

theorem getExperiences_idempotent_witness:
  "fallback_path (static_env example_document)
     (api_get_experiences (static_env example_document)) \<and>
   fallback_path (later_env example_document)
     (api_get_experiences (later_env example_document)) \<and>
   fetch_experiences_json (static_env example_document) = Inr example_document \<and>
   fetch_experiences_json (later_env example_document) = Inr example_document \<and>
   getExperiences (static_env example_document) = getExperiences (later_env example_document)"
  using getExperiences_idempotent [OF fallback_static fallback_later_list fetch_static fetch_later]
    fallback_static fallback_later_list fetch_static fetch_later
  by blast

section \<open>Experience detail on the fallback path\<close>

text \<open>
  Claim C4. On the fallback path, for an id that no entry of the static document has
  (after stringification), \<open>getExperienceById\<close> fails with the error "Experience not found
  in static data". The failure of the remote request is not what the caller sees: the
  result is the one of a call with no backend configured.
\<close>

theorem getExperienceById_not_found:
  assumes "fallback_path env (api_get_experience env i)"
      and "fetch_experiences_json env = Inr json"
      and "\<forall>e \<in> set (experiences_or_empty json). String (raw_id e) \<noteq> i"
  shows "getExperienceById env i = Inl (Error ''Experience not found in static data'') \<and>
         getExperienceById env i = getExperienceById (env\<lparr>API_BASE_URL := None\<rparr>) i"
proof -
  have none: "find (\<lambda>e. String (raw_id e) = i) (experiences_or_empty json) = None"
    using assms(3) by (simp add: find_None_iff)
  then have a: "getExperienceById_static env i = Inl (Error ''Experience not found in static data'')"
    using assms(2) by (simp add: getExperienceById_static_def)
  have "getExperienceById (env\<lparr>API_BASE_URL := None\<rparr>) i =
          getExperienceById_static (env\<lparr>API_BASE_URL := None\<rparr>) i"
    by (simp add: getExperienceById_def configured_def)
  also have "\<dots> = Inl (Error ''Experience not found in static data'')"
    using assms(2) none by (simp add: getExperienceById_static_def)
  finally show ?thesis
    using a getExperienceById_fallback_eq [OF assms(1)] by simp
qed

theorem getExperienceById_not_found_witness:
  "fallback_path (offline_env example_document)
     (api_get_experience (offline_env example_document) ''42'') \<and>
   fetch_experiences_json (offline_env example_document) = Inr example_document \<and>
   ''42'' \<notin> set (map (\<lambda>e. String (raw_id e)) (experiences_or_empty example_document)) \<and>
   api_get_experience (offline_env example_document) ''42'' = Inl (AxiosError ''Network Error'') \<and>
   getExperienceById (offline_env example_document) ''42'' =
     Inl (Error ''Experience not found in static data'')"
proof -
  have a: "\<forall>e \<in> set (experiences_or_empty example_document). String (raw_id e) \<noteq> ''42''"
    by (simp add: example_entries example_ids)
  then have a': "''42'' \<notin> set (map (\<lambda>e. String (raw_id e)) (experiences_or_empty example_document))"
    by auto
  have r: "api_get_experience (offline_env example_document) ''42'' =
             Inl (AxiosError ''Network Error'')"
    by (simp add: offline_env_def static_env_def)
  from getExperienceById_not_found [OF fallback_offline_detail fetch_offline a]
  show ?thesis
    using fallback_offline_detail fetch_offline a' r by blast
qed

text \<open>
  Claim C6. On the fallback path, for every entry of the static document,
  \<open>getExperienceById\<close> called with the entry's stringified id returns a detail whose id is
  equal, as a string, to the requested id.
\<close>

theorem getExperienceById_id_matches:
  assumes "fallback_path env (api_get_experience env (String (raw_id e)))"
      and "fetch_experiences_json env = Inr json"
      and "e \<in> set (experiences_or_empty json)"
  shows "\<exists>d. getExperienceById env (String (raw_id e)) = Inr d \<and> exp_id d = String (raw_id e)"
proof -
  from find_present [of e "experiences_or_empty json" "\<lambda>x. String (raw_id x) = String (raw_id e)"] assms(3)
  obtain found where
    f: "find (\<lambda>x. String (raw_id x) = String (raw_id e)) (experiences_or_empty json) = Some found"
    and m: "String (raw_id found) = String (raw_id e)"
    by auto
  show ?thesis
    using assms(2) f m
    by (simp add: getExperienceById_fallback_eq [OF assms(1)] getExperienceById_static_def)
qed

theorem getExperienceById_id_matches_witness:
  "fallback_path (offline_env example_document)
     (api_get_experience (offline_env example_document) (String (raw_id kayaking_twin))) \<and>
   fetch_experiences_json (offline_env example_document) = Inr example_document \<and>
   kayaking_twin \<in> set (experiences_or_empty example_document) \<and>
   (\<exists>d. getExperienceById (offline_env example_document) ''1'' = Inr d \<and> exp_id d = ''1'')"
proof -
  have m: "kayaking_twin \<in> set (experiences_or_empty example_document)"
    by (simp add: example_entries)
  from getExperienceById_id_matches [OF fallback_offline_detail fetch_offline m]
  have "\<exists>d. getExperienceById (offline_env example_document) ''1'' = Inr d \<and> exp_id d = ''1''"
    by (simp add: example_ids del: String.simps(2))
  then show ?thesis
    using fallback_offline_detail fetch_offline m by blast
qed

text \<open>
  Claim C10. Every slot of a detail returned by \<open>getExperienceById\<close> on the fallback path
  carries the detail's own id as its \<open>experienceId\<close>, whether the slots come from the
  static document or are synthesized.
\<close>

theorem getExperienceById_slots_experienceId:
  assumes "fallback_path env (api_get_experience env i)"
      and "getExperienceById env i = Inr d"
  shows "\<forall>s \<in> set (slots d). slot_experienceId s = exp_id d"
proof -
  from assms have st: "getExperienceById_static env i = Inr d"
    by (simp add: getExperienceById_fallback_eq)
  then obtain json where j: "fetch_experiences_json env = Inr json"
    by (cases "fetch_experiences_json env") (simp_all add: getExperienceById_static_def)
  from st j obtain found
    where f: "find (\<lambda>e. String (raw_id e) = i) (experiences_or_empty json) = Some found"
    by (cases "find (\<lambda>e. String (raw_id e) = i) (experiences_or_empty json)")
       (simp_all add: getExperienceById_static_def)
  from st j f have "slots d = map (toSlot found) (ensureSlots env found)"
    and "exp_id d = String (raw_id found)"
    by (auto simp: getExperienceById_static_def)
  then show ?thesis
    by (simp add: toSlot_def)
qed

theorem getExperienceById_slots_experienceId_witness:
  "fallback_path (static_env example_document)
     (api_get_experience (static_env example_document) ''1'') \<and>
   getExperienceById (static_env example_document) ''1'' =
     Inr \<lparr>exp_id = ''1'', exp_name = ''Kayaking'', exp_location = ''Udupi'',
           exp_description = ''Curated small-group experience.'',
           exp_image = ''/images/kayaking.jpg'', exp_price = 1000,
           slots = [\<lparr>slot_id = ''11'', slot_experienceId = ''1'', slot_date = ''2026-11-03'',
                     slot_time = ''07:00 am'', slot_availableSpots = 4,
                     slot_totalSpots = 10\<rparr>]\<rparr> \<and>
   list_all (\<lambda>s. slot_experienceId s = ''1'')
     [\<lparr>slot_id = ''11'', slot_experienceId = ''1'', slot_date = ''2026-11-03'',
       slot_time = ''07:00 am'', slot_availableSpots = 4, slot_totalSpots = 10\<rparr>] \<and>
   fallback_path (offline_env example_document)
     (api_get_experience (offline_env example_document) ''coffee'') \<and>
   (\<exists>d. getExperienceById (offline_env example_document) ''coffee'' = Inr d \<and>
        exp_id d = ''coffee'' \<and> slots d \<noteq> [] \<and>
        list_all (\<lambda>s. slot_experienceId s = ''coffee'') (slots d))"
proof -
  from getExperienceById_slots_experienceId [OF fallback_static example_detail_1]
  have a: "list_all (\<lambda>s. slot_experienceId s = ''1'')
     [\<lparr>slot_id = ''11'', slot_experienceId = ''1'', slot_date = ''2026-11-03'',
       slot_time = ''07:00 am'', slot_availableSpots = 4, slot_totalSpots = 10\<rparr>]"
    by simp
  let ?d = "\<lparr>exp_id = String (raw_id coffee_trail), exp_name = raw_name coffee_trail,
             exp_location = raw_location coffee_trail,
             exp_description = raw_description coffee_trail,
             exp_image = raw_image coffee_trail, exp_price = raw_price coffee_trail,
             slots = map (toSlot coffee_trail)
                       (ensureSlots (offline_env example_document) coffee_trail)\<rparr>"
  have d: "getExperienceById (offline_env example_document) ''coffee'' = Inr ?d"
    by (rule lookup_found [OF fallback_offline_detail fetch_offline example_find_coffee])
  have n: "slots ?d \<noteq> []"
    by (simp add: ensureSlots_def coffee_trail_def days_loop.simps times_def)
  from getExperienceById_slots_experienceId [OF fallback_offline_detail d]
  have "list_all (\<lambda>s. slot_experienceId s = ''coffee'') (slots ?d)"
    unfolding list_all_iff by (simp add: example_ids del: String.simps(2))
  moreover have "exp_id ?d = ''coffee''"
    by (simp add: example_ids del: String.simps(2))
  ultimately have "\<exists>d. getExperienceById (offline_env example_document) ''coffee'' = Inr d \<and>
        exp_id d = ''coffee'' \<and> slots d \<noteq> [] \<and>
        list_all (\<lambda>s. slot_experienceId s = ''coffee'') (slots d)"
    using d n by blast
  with a show ?thesis
    using fallback_static example_detail_1 fallback_offline_detail by blast
qed

text \<open>
  The shape of a synthesized schedule, for the entry the lookup finds: 20 slots, for the
  dates the calendar gives for 1 to 5 days ahead, the four fixed times with 4, 2, 5 and 0
  available spots, 10 total spots each, and the id \<open>id-date-time\<close>.
\<close>

lemma getExperienceById_synthesized_slots:
  assumes "fallback_path env (api_get_experience env i)"
      and "fetch_experiences_json env = Inr json"
      and "find (\<lambda>e. String (raw_id e) = i) (experiences_or_empty json) = Some found"
      and "raw_slots found = None \<or> raw_slots found = Some []"
  shows "\<exists>d. getExperienceById env i = Inr d \<and> length (slots d) = 20 \<and>
           slots d =
             concat (map (\<lambda>n. map (\<lambda>(t, a).
                                  \<lparr>slot_id = String (raw_id found) @ ''-'' @ isoDateAfter env n @ ''-'' @ t,
                                   slot_experienceId = String (raw_id found),
                                   slot_date = isoDateAfter env n, slot_time = t,
                                   slot_availableSpots = a, slot_totalSpots = 10\<rparr>)
                               [(''07:00 am'', 4), (''9:00 am'', 2), (''11:00 am'', 5), (''1:00 pm'', 0)])
                         [1, 2, 3, 4, 5])"
proof -
  have "getExperienceById env i =
          Inr \<lparr>exp_id = String (raw_id found), exp_name = raw_name found,
                exp_location = raw_location found,
                exp_description = raw_description found,
                exp_image = raw_image found, exp_price = raw_price found,
                slots = map (toSlot found) (days_loop env found 0 [])\<rparr>"
    using assms(2,3)
    by (simp add: getExperienceById_fallback_eq [OF assms(1)] getExperienceById_static_def
        ensureSlots_without_slots [OF assms(4)])
  then show ?thesis
    by (simp add: days_loop_schedule times_def toSlot_def)
qed

lemma find_distinct_ids:
  "distinct (map f es) \<Longrightarrow> e \<in> set es \<Longrightarrow> find (\<lambda>x. f x = f e) es = Some e"
  by (induction es) auto

text \<open>
  When the stringified ids of the document are distinct, this holds for every entry
  without slots.
\<close>

lemma synthesized_slots_distinct_ids:
  assumes "fallback_path env (api_get_experience env (String (raw_id e)))"
      and "fetch_experiences_json env = Inr json"
      and "distinct (map (\<lambda>x. String (raw_id x)) (experiences_or_empty json))"
      and "e \<in> set (experiences_or_empty json)"
      and "raw_slots e = None \<or> raw_slots e = Some []"
  shows "\<exists>d. getExperienceById env (String (raw_id e)) = Inr d \<and> length (slots d) = 20 \<and>
           map slot_time (slots d) =
             concat (replicate 5 [''07:00 am'', ''9:00 am'', ''11:00 am'', ''1:00 pm'']) \<and>
           map slot_availableSpots (slots d) = concat (replicate 5 [4, 2, 5, 0]) \<and>
           map slot_totalSpots (slots d) = replicate 20 10 \<and>
           list_all (\<lambda>s. slot_id s = String (raw_id e) @ ''-'' @ slot_date s @ ''-'' @ slot_time s)
             (slots d)"
proof -
  from find_distinct_ids [OF assms(3,4)]
  have f: "find (\<lambda>x. String (raw_id x) = String (raw_id e)) (experiences_or_empty json) = Some e" .
  from getExperienceById_synthesized_slots [OF assms(1,2) f assms(5)]
  obtain d where d: "getExperienceById env (String (raw_id e)) = Inr d"
    and l: "length (slots d) = 20"
    and sl: "slots d =
             concat (map (\<lambda>n. map (\<lambda>(t, a).
                                  \<lparr>slot_id = String (raw_id e) @ ''-'' @ isoDateAfter env n @ ''-'' @ t,
                                   slot_experienceId = String (raw_id e),
                                   slot_date = isoDateAfter env n, slot_time = t,
                                   slot_availableSpots = a, slot_totalSpots = 10\<rparr>)
                               [(''07:00 am'', 4), (''9:00 am'', 2), (''11:00 am'', 5), (''1:00 pm'', 0)])
                         [1, 2, 3, 4, 5])"
    by blast
  have "map slot_time (slots d) =
          concat (replicate 5 [''07:00 am'', ''9:00 am'', ''11:00 am'', ''1:00 pm''])"
    by (simp add: sl eval_nat_numeral)
  moreover have "map slot_availableSpots (slots d) = concat (replicate 5 [4, 2, 5, 0])"
    by (simp add: sl eval_nat_numeral)
  moreover have "map slot_totalSpots (slots d) = replicate 20 10"
    by (simp add: sl eval_nat_numeral)
  moreover have "list_all (\<lambda>s. slot_id s = String (raw_id e) @ ''-'' @ slot_date s @ ''-'' @ slot_time s)
             (slots d)"
    by (simp add: sl)
  ultimately show ?thesis
    using d l by blast
qed

text \<open>
  Claim C2. For an experience without slots the fallback path synthesizes 20 slots: the
  four fixed times for each of the five calendar days starting tomorrow. The code advances
  the day of the month in local time and reads the date in UTC, so across a change of the
  zone's offset two of the five dates coincide. In the zone Europe/Berlin at 01:30 local
  time on 27 March 2026 the dates are 28, 29, 29, 30 and 31 March: the four slots of
  29 March come twice, with equal ids, and 1 April has none.
\<close>

theorem getExperienceById_schedule_dst:
  "Date_now (berlin_env example_document) = 1774571400000 \<and>
   toISOString_date 1774571400000 = ''2026-03-27'' \<and>
   toISOString_date (LocalTime Europe_Berlin 1774571400000) = ''2026-03-27'' \<and>
   raw_slots coffee_trail = Some [] \<and>
   (\<exists>d. getExperienceById (berlin_env example_document) ''coffee'' = Inr d \<and>
        length (slots d) = 20 \<and>
        map slot_date (slots d) =
          concat (map (replicate 4)
            [''2026-03-28'', ''2026-03-29'', ''2026-03-29'', ''2026-03-30'', ''2026-03-31'']) \<and>
        slot_id (slots d ! 4) = ''coffee-2026-03-29-07:00 am'' \<and>
        slot_id (slots d ! 8) = ''coffee-2026-03-29-07:00 am'' \<and>
        \<not> distinct (map slot_id (slots d)))"
proof -
  have s: "raw_slots coffee_trail = Some []"
    by (simp add: coffee_trail_def)
  from getExperienceById_synthesized_slots
         [OF fallback_berlin fetch_berlin example_find_coffee disjI2 [OF s]]
  obtain d where d: "getExperienceById (berlin_env example_document) ''coffee'' = Inr d"
    and l: "length (slots d) = 20"
    and sl: "slots d =
             concat (map (\<lambda>n. map (\<lambda>(t, a).
                                  \<lparr>slot_id = String (raw_id coffee_trail) @ ''-'' @ isoDateAfter (berlin_env example_document) n @ ''-'' @ t,
                                   slot_experienceId = String (raw_id coffee_trail),
                                   slot_date = isoDateAfter (berlin_env example_document) n, slot_time = t,
                                   slot_availableSpots = a, slot_totalSpots = 10\<rparr>)
                               [(''07:00 am'', 4), (''9:00 am'', 2), (''11:00 am'', 5), (''1:00 pm'', 0)])
                         [1, 2, 3, 4, 5])"
    by blast
  have "concat (map (replicate 4)
            [''2026-03-28'', ''2026-03-29'', ''2026-03-29'', ''2026-03-30'', ''2026-03-31'']) =
          map slot_date (slots d)"
    unfolding sl calendar_berlin by (simp add: berlin_dates) (simp add: eval_nat_numeral)
  then have dates: "map slot_date (slots d) =
          concat (map (replicate 4)
            [''2026-03-28'', ''2026-03-29'', ''2026-03-29'', ''2026-03-30'', ''2026-03-31''])"
    by (rule sym)
  have i4: "slot_id (slots d ! 4) = ''coffee-2026-03-29-07:00 am''"
    by (simp add: sl calendar_berlin berlin_dates example_ids del: String.simps(2))
  have i8: "slot_id (slots d ! 8) = ''coffee-2026-03-29-07:00 am''"
    by (simp add: sl calendar_berlin berlin_dates example_ids del: String.simps(2))
  have "\<not> distinct (map slot_id (slots d))"
  proof
    assume "distinct (map slot_id (slots d))"
    moreover have "(4::nat) < length (map slot_id (slots d))"
      and "(8::nat) < length (map slot_id (slots d))" and "(4::nat) \<noteq> 8"
      using l by simp_all
    ultimately have "map slot_id (slots d) ! 4 \<noteq> map slot_id (slots d) ! 8"
      by (simp only: nth_eq_iff_index_eq simp_thms)
    with i4 i8 l show False
      by simp
  qed
  with d l dates i4 i8 have "\<exists>d. getExperienceById (berlin_env example_document) ''coffee'' = Inr d \<and>
        length (slots d) = 20 \<and>
        map slot_date (slots d) =
          concat (map (replicate 4)
            [''2026-03-28'', ''2026-03-29'', ''2026-03-29'', ''2026-03-30'', ''2026-03-31'']) \<and>
        slot_id (slots d ! 4) = ''coffee-2026-03-29-07:00 am'' \<and>
        slot_id (slots d ! 8) = ''coffee-2026-03-29-07:00 am'' \<and>
        \<not> distinct (map slot_id (slots d))"
    by blast
  moreover have "Date_now (berlin_env example_document) = 1774571400000"
    by (simp add: berlin_env_def)
  ultimately show ?thesis
    using s berlin_today by blast
qed

section \<open>Bookings on the fallback path\<close>

text \<open>
  Claim C3, amended. On the fallback path, for a request with a non-zero quantity,
  \<open>createBooking\<close> returns total = base + taxes with base = price * quantity and
  taxes = \<open>Math_round (base * 0.05)\<close>, the price being the one of the looked-up experience
  and 1000 when the lookup fails. The total equals \<open>Math_round (price * quantity * 1.05)\<close>
  whenever price * quantity is an integer; price 1000 and quantity 2 give 2100.
\<close>

theorem createBooking_fallback_total:
  assumes "fallback_path env (api_post_bookings env booking)"
      and "quantity booking \<noteq> 0"
  shows "\<exists>d. createBooking env booking =
               Inr \<lparr>bk_success = True, bk_message = ''Simulated booking (static demo).'',
                     bk_data = Some d\<rparr> \<and>
             (\<forall>price.
                price = (case getExperienceById env (experienceId booking) of
                           Inr detail \<Rightarrow> exp_price detail
                         | Inl err \<Rightarrow> 1000) \<longrightarrow>
                total d = price * quantity booking + Math_round (price * quantity booking * 0.05) \<and>
                (price * quantity booking \<in> \<int> \<longrightarrow>
                   total d = Math_round (price * quantity booking * 1.05)) \<and>
                (price = 1000 \<and> quantity booking = 2 \<longrightarrow> total d = 2100))"
proof -
  define price where
    "price = (case getExperienceById env (experienceId booking) of
                Inr detail \<Rightarrow> exp_price detail
              | Inl err \<Rightarrow> 1000)"
  define base where "base = price * quantity booking"
  obtain d where d: "createBooking env booking =
               Inr \<lparr>bk_success = True, bk_message = ''Simulated booking (static demo).'',
                     bk_data = Some d\<rparr>"
    and t: "total d = base + Math_round (base * 0.05)"
  proof -
    have "createBooking_static env booking =
            Inr \<lparr>bk_success = True, bk_message = ''Simulated booking (static demo).'',
                  bk_data = Some
                    \<lparr>bookingRef = ''DEMO-'' @ digits (Date_now env),
                     experienceName =
                       (case getExperienceById env (experienceId booking) of
                          Inr detail \<Rightarrow> if exp_name detail = [] then ''Experience'' else exp_name detail
                        | Inl err \<Rightarrow> ''Experience''),
                     bk_date = date booking, bk_time = time booking,
                     bk_quantity = quantity booking,
                     total = base + Math_round (base * 0.05)\<rparr>\<rparr>"
      unfolding createBooking_static_def Let_def base_def price_def
      using assms(2) by (cases "getExperienceById env (experienceId booking)") simp_all
    then show ?thesis
      using that by (simp add: createBooking_fallback_eq [OF assms(1)])
  qed
  have split: "base * 1.05 = base + base * 0.05"
    by (simp add: algebra_simps)
  have eqv: "total d = Math_round (base * 1.05)" if "base \<in> \<int>"
  proof -
    have "Math_round (base * 1.05) = Math_round (base + base * 0.05)"
      by (simp only: split)
    also have "\<dots> = base + Math_round (base * 0.05)"
      by (rule Math_round_Ints_add [OF that])
    also have "\<dots> = total d"
      by (rule t [symmetric])
    finally show ?thesis
      by (rule sym)
  qed
  have ex: "total d = 2100" if "price = 1000 \<and> quantity booking = 2"
  proof -
    from that have "base = 2000"
      by (simp add: base_def)
    then show ?thesis
      by (simp add: t Math_round_def)
  qed
  show ?thesis
  proof (intro exI conjI allI impI)
    show "createBooking env booking =
               Inr \<lparr>bk_success = True, bk_message = ''Simulated booking (static demo).'',
                     bk_data = Some d\<rparr>"
      by (rule d)
  next
    fix p
    assume "p = (case getExperienceById env (experienceId booking) of
                           Inr detail \<Rightarrow> exp_price detail
                         | Inl err \<Rightarrow> 1000)"
    then have p: "p = price"
      by (simp only: price_def)
    show "total d = p * quantity booking + Math_round (p * quantity booking * 0.05)"
      unfolding p using t by (simp only: base_def)
    { assume "p * quantity booking \<in> \<int>"
      then have "base \<in> \<int>"
        by (simp only: p base_def)
      from eqv [OF this] show "total d = Math_round (p * quantity booking * 1.05)"
        by (simp only: p base_def) }
    { assume "p = 1000 \<and> quantity booking = 2"
      then have "price = 1000 \<and> quantity booking = 2"
        by (simp only: p)
      from ex [OF this] show "total d = 2100" . }
  qed
qed

text \<open>
  Claim C3 as stated fails for a fractional price (price 1/2, quantity 1: the total is 1/2,
  the rounded product is 1) and for the quantity 0 (the total is that of quantity 1).
\<close>

theorem createBooking_fallback_total_counterexample:
  "fallback_path (static_env example_document)
     (api_post_bookings (static_env example_document) (example_booking ''coffee'' 1)) \<and>
   map_sum id exp_price (getExperienceById (static_env example_document) ''coffee'') = Inr (1 / 2) \<and>
   quantity (example_booking ''coffee'' 1) = 1 \<and>
   createBooking (static_env example_document) (example_booking ''coffee'' 1) =
     Inr \<lparr>bk_success = True, bk_message = ''Simulated booking (static demo).'',
           bk_data = Some \<lparr>bookingRef = ''DEMO-1793606400000'', experienceName = ''Coffee Trail'',
                           bk_date = ''2026-11-03'', bk_time = ''07:00 am'',
                           bk_quantity = 1, total = 1 / 2\<rparr>\<rparr> \<and>
   Math_round (1 / 2 * 1 * 1.05) = 1 \<and>
   fallback_path (static_env example_document)
     (api_post_bookings (static_env example_document) (example_booking ''1'' 0)) \<and>
   map_sum id exp_price (getExperienceById (static_env example_document) ''1'') = Inr 1000 \<and>
   quantity (example_booking ''1'' 0) = 0 \<and>
   createBooking (static_env example_document) (example_booking ''1'' 0) =
     Inr \<lparr>bk_success = True, bk_message = ''Simulated booking (static demo).'',
           bk_data = Some \<lparr>bookingRef = ''DEMO-1793606400000'', experienceName = ''Kayaking'',
                           bk_date = ''2026-11-03'', bk_time = ''07:00 am'',
                           bk_quantity = 1, total = 1050\<rparr>\<rparr> \<and>
   1000 * 0 + Math_round (1000 * 0 * 0.05) = 0"
proof -
  have p1: "map_sum id exp_price (getExperienceById (static_env example_document) ''coffee'') =
              Inr (1 / 2)"
    by (simp add: lookup_found [OF fallback_static fetch_static example_find_coffee]
        coffee_trail_def)
  have p2: "map_sum id exp_price (getExperienceById (static_env example_document) ''1'') = Inr 1000"
    by (simp add: example_detail_1)
  have r1: "Math_round (1 / 2 * 1 * 1.05) = 1"
    by (simp add: Math_round_def)
  have r2: "1000 * 0 + Math_round (1000 * 0 * 0.05) = 0"
    by (simp add: Math_round_def)
  show ?thesis
    by (intro conjI fallback_static p1 p2 r1 r2 example_booking_fields
        example_booking_coffee example_booking_zero)
qed

theorem createBooking_fallback_total_witness:
  "fallback_path (offline_env example_document)
     (api_post_bookings (offline_env example_document) (example_booking ''1'' 2)) \<and>
   quantity (example_booking ''1'' 2) \<noteq> 0 \<and>
   (\<exists>d. createBooking (offline_env example_document) (example_booking ''1'' 2) =
          Inr \<lparr>bk_success = True, bk_message = ''Simulated booking (static demo).'',
                bk_data = Some d\<rparr> \<and>
        total d = 1000 * 2 + Math_round (1000 * 2 * 0.05) \<and>
        total d = Math_round (1000 * 2 * 1.05) \<and>
        total d = 2100)"
proof -
  have q: "quantity (example_booking ''1'' 2) \<noteq> 0"
    by (simp add: example_booking_fields)
  have p: "(case getExperienceById (offline_env example_document)
                  (experienceId (example_booking ''1'' 2)) of
              Inr detail \<Rightarrow> exp_price detail
            | Inl err \<Rightarrow> 1000) = 1000"
    by (simp add: example_booking_fields kayaking_def
        lookup_found [OF fallback_offline_detail fetch_offline example_find_1])
  from createBooking_fallback_total [OF fallback_offline_booking q]
  obtain d where d: "createBooking (offline_env example_document) (example_booking ''1'' 2) =
          Inr \<lparr>bk_success = True, bk_message = ''Simulated booking (static demo).'',
                bk_data = Some d\<rparr>"
    and t: "\<forall>price.
                price = (case getExperienceById (offline_env example_document)
                                (experienceId (example_booking ''1'' 2)) of
                           Inr detail \<Rightarrow> exp_price detail
                         | Inl err \<Rightarrow> 1000) \<longrightarrow>
                total d = price * quantity (example_booking ''1'' 2) +
                          Math_round (price * quantity (example_booking ''1'' 2) * 0.05) \<and>
                (price * quantity (example_booking ''1'' 2) \<in> \<int> \<longrightarrow>
                   total d = Math_round (price * quantity (example_booking ''1'' 2) * 1.05)) \<and>
                (price = 1000 \<and> quantity (example_booking ''1'' 2) = 2 \<longrightarrow> total d = 2100)"
    by blast
  note inst = t [rule_format, of 1000, OF p [symmetric], unfolded example_booking_fields]
  from inst have a: "total d = 1000 * 2 + Math_round (1000 * 2 * 0.05)"
    by (rule conjunct1)
  from inst have "(1000::real) = 1000 \<and> (2::real) = 2 \<longrightarrow> total d = 2100"
    by (rule conjunct2 [OF conjunct2])
  then have c: "total d = 2100"
    by (simp only: simp_thms)
  from inst have b: "1000 * 2 \<in> (\<int> :: real set) \<longrightarrow> total d = Math_round (1000 * 2 * 1.05)"
    by (rule conjunct1 [OF conjunct2])
  have "(1000 * 2 :: real) \<in> \<int>"
    by simp
  with b have "total d = Math_round (1000 * 2 * 1.05)"
    by (rule mp)
  with a c d q fallback_offline_booking show ?thesis
    by blast
qed

text \<open>
  Claim C5. On the fallback path \<open>createBooking\<close> never fails: it returns success with the
  message "Simulated booking (static demo)." and the reference "DEMO-" followed by the
  current timestamp. No availability is checked: the response is the same for any other
  slot id and for any other slot data in the static document. Nothing is decremented
  either, since the function returns a response and writes nothing.
\<close>

theorem createBooking_fallback_succeeds:
  assumes "fallback_path env (api_post_bookings env booking)"
  shows "(\<exists>d. createBooking env booking =
                Inr \<lparr>bk_success = True, bk_message = ''Simulated booking (static demo).'',
                      bk_data = Some d\<rparr> \<and>
              bookingRef d = ''DEMO-'' @ digits (Date_now env)) \<and>
         (\<forall>s. fallback_path env (api_post_bookings env (booking\<lparr>slotId := s\<rparr>)) \<longrightarrow>
              createBooking env (booking\<lparr>slotId := s\<rparr>) = createBooking env booking) \<and>
         (\<forall>json f. fetch_experiences_json env = Inr json \<longrightarrow>
              createBooking (env\<lparr>fetch_experiences_json := Inr (with_slots f json)\<rparr>) booking =
              createBooking env booking)"
proof (intro conjI allI impI)
  show "\<exists>d. createBooking env booking =
                Inr \<lparr>bk_success = True, bk_message = ''Simulated booking (static demo).'',
                      bk_data = Some d\<rparr> \<and>
              bookingRef d = ''DEMO-'' @ digits (Date_now env)"
    by (cases "getExperienceById env (experienceId booking)")
       (simp_all add: createBooking_fallback_eq [OF assms] createBooking_static_found
          createBooking_static_missing)
next
  fix s
  assume fb: "fallback_path env (api_post_bookings env (booking\<lparr>slotId := s\<rparr>))"
  show "createBooking env (booking\<lparr>slotId := s\<rparr>) = createBooking env booking"
    by (simp add: createBooking_fallback_eq [OF assms] createBooking_fallback_eq [OF fb]
        createBooking_static_def)
next
  fix json f
  assume j: "fetch_experiences_json env = Inr json"
  let ?env' = "env\<lparr>fetch_experiences_json := Inr (with_slots f json)\<rparr>"
  from assms have fb': "fallback_path ?env' (api_post_bookings ?env' booking)"
    by (simp add: fallback_path_def configured_def)
  show "createBooking ?env' booking = createBooking env booking"
    by (simp add: createBooking_fallback_eq [OF assms] createBooking_fallback_eq [OF fb']
        createBooking_static_with_slots [OF j])
qed

theorem createBooking_fallback_succeeds_witness:
  "fallback_path (offline_env example_document)
     (api_post_bookings (offline_env example_document) (example_booking ''1'' 1)) \<and>
   (\<exists>d. createBooking (offline_env example_document) (example_booking ''1'' 1) =
          Inr \<lparr>bk_success = True, bk_message = ''Simulated booking (static demo).'',
                bk_data = Some d\<rparr> \<and>
        bookingRef d = ''DEMO-1793606400000'') \<and>
   fallback_path (offline_env example_document)
     (api_post_bookings (offline_env example_document)
        ((example_booking ''1'' 1)\<lparr>slotId := ''no-such-slot''\<rparr>)) \<and>
   createBooking (offline_env example_document)
     ((example_booking ''1'' 1)\<lparr>slotId := ''no-such-slot''\<rparr>) =
   createBooking (offline_env example_document) (example_booking ''1'' 1) \<and>
   fetch_experiences_json (offline_env example_document) = Inr example_document \<and>
   createBooking
     ((offline_env example_document)
        \<lparr>fetch_experiences_json := Inr (with_slots (\<lambda>e. Some []) example_document)\<rparr>)
     (example_booking ''1'' 1) =
   createBooking (offline_env example_document) (example_booking ''1'' 1)"
proof -
  note inst = createBooking_fallback_succeeds
                [where env = "offline_env example_document"
                   and booking = "example_booking ''1'' 1", OF fallback_offline_booking]
  from inst have a: "\<exists>d. createBooking (offline_env example_document) (example_booking ''1'' 1) =
          Inr \<lparr>bk_success = True, bk_message = ''Simulated booking (static demo).'',
                bk_data = Some d\<rparr> \<and>
        bookingRef d = ''DEMO-1793606400000''"
    by (simp add: Date_now_offline digits_example_clock)
  from inst fallback_offline_booking
  have b: "createBooking (offline_env example_document)
             ((example_booking ''1'' 1)\<lparr>slotId := ''no-such-slot''\<rparr>) =
           createBooking (offline_env example_document) (example_booking ''1'' 1)"
    by blast
  from inst fetch_offline
  have c: "createBooking
     ((offline_env example_document)
        \<lparr>fetch_experiences_json := Inr (with_slots (\<lambda>e. Some []) example_document)\<rparr>)
     (example_booking ''1'' 1) =
   createBooking (offline_env example_document) (example_booking ''1'' 1)"
    by blast
  from a b c show ?thesis
    using fallback_offline_booking fetch_offline by blast
qed

text \<open>
  Claim C9. On the fallback path a request with quantity 0 is treated as quantity 1: the
  returned quantity is 1, the total is the one of a single unit, and the response is the
  response to the same request with quantity 1.
\<close>

theorem createBooking_zero_quantity:
  assumes "fallback_path env (api_post_bookings env booking)"
      and "quantity booking = 0"
  shows "(\<exists>d. createBooking env booking =
                Inr \<lparr>bk_success = True, bk_message = ''Simulated booking (static demo).'',
                      bk_data = Some d\<rparr> \<and>
              bk_quantity d = 1 \<and>
              (\<forall>detail. getExperienceById env (experienceId booking) = Inr detail \<longrightarrow>
                 total d = exp_price detail * 1 + Math_round (exp_price detail * 1 * 0.05)) \<and>
              (\<forall>err. getExperienceById env (experienceId booking) = Inl err \<longrightarrow>
                 total d = 1000 * 1 + Math_round (1000 * 1 * 0.05))) \<and>
         (fallback_path env (api_post_bookings env (booking\<lparr>quantity := 1\<rparr>)) \<longrightarrow>
            createBooking env booking = createBooking env (booking\<lparr>quantity := 1\<rparr>))"
proof (intro conjI impI)
  show "\<exists>d. createBooking env booking =
                Inr \<lparr>bk_success = True, bk_message = ''Simulated booking (static demo).'',
                      bk_data = Some d\<rparr> \<and>
              bk_quantity d = 1 \<and>
              (\<forall>detail. getExperienceById env (experienceId booking) = Inr detail \<longrightarrow>
                 total d = exp_price detail * 1 + Math_round (exp_price detail * 1 * 0.05)) \<and>
              (\<forall>err. getExperienceById env (experienceId booking) = Inl err \<longrightarrow>
                 total d = 1000 * 1 + Math_round (1000 * 1 * 0.05))"
    using assms(2)
    by (cases "getExperienceById env (experienceId booking)")
       (simp_all add: createBooking_fallback_eq [OF assms(1)] createBooking_static_found
          createBooking_static_missing)
next
  assume fb: "fallback_path env (api_post_bookings env (booking\<lparr>quantity := 1\<rparr>))"
  show "createBooking env booking = createBooking env (booking\<lparr>quantity := 1\<rparr>)"
    using assms(2)
    by (simp add: createBooking_fallback_eq [OF assms(1)] createBooking_fallback_eq [OF fb]
        createBooking_static_def)
qed

theorem createBooking_zero_quantity_witness:
  "fallback_path (static_env example_document)
     (api_post_bookings (static_env example_document) (example_booking ''1'' 0)) \<and>
   quantity (example_booking ''1'' 0) = 0 \<and>
   (\<exists>d. createBooking (static_env example_document) (example_booking ''1'' 0) =
          Inr \<lparr>bk_success = True, bk_message = ''Simulated booking (static demo).'',
                bk_data = Some d\<rparr> \<and>
        bk_quantity d = 1 \<and> total d = 1050) \<and>
   fallback_path (static_env example_document)
     (api_post_bookings (static_env example_document)
        ((example_booking ''1'' 0)\<lparr>quantity := 1\<rparr>)) \<and>
   createBooking (static_env example_document) (example_booking ''1'' 0) =
   createBooking (static_env example_document) ((example_booking ''1'' 0)\<lparr>quantity := 1\<rparr>)"
proof -
  have q: "quantity (example_booking ''1'' 0) = 0"
    by (simp add: example_booking_fields)
  note inst = createBooking_zero_quantity
                [where env = "static_env example_document", OF fallback_static q]
  have l: "getExperienceById (static_env example_document)
             (experienceId (example_booking ''1'' 0)) =
     Inr \<lparr>exp_id = ''1'', exp_name = ''Kayaking'', exp_location = ''Udupi'',
           exp_description = ''Curated small-group experience.'',
           exp_image = ''/images/kayaking.jpg'', exp_price = 1000,
           slots = [\<lparr>slot_id = ''11'', slot_experienceId = ''1'', slot_date = ''2026-11-03'',
                     slot_time = ''07:00 am'', slot_availableSpots = 4,
                     slot_totalSpots = 10\<rparr>]\<rparr>"
    unfolding example_booking_fields by (rule example_detail_1)
  from inst obtain d where
    d: "createBooking (static_env example_document) (example_booking ''1'' 0) =
          Inr \<lparr>bk_success = True, bk_message = ''Simulated booking (static demo).'',
                bk_data = Some d\<rparr>"
    and n: "bk_quantity d = 1"
    and t: "\<forall>detail. getExperienceById (static_env example_document)
                        (experienceId (example_booking ''1'' 0)) = Inr detail \<longrightarrow>
                 total d = exp_price detail * 1 + Math_round (exp_price detail * 1 * 0.05)"
    by blast
  from t [rule_format, OF l] have "total d = 1050"
    by (simp add: Math_round_def)
  with d n have a: "\<exists>d. createBooking (static_env example_document) (example_booking ''1'' 0) =
          Inr \<lparr>bk_success = True, bk_message = ''Simulated booking (static demo).'',
                bk_data = Some d\<rparr> \<and>
        bk_quantity d = 1 \<and> total d = 1050"
    by blast
  from inst fallback_static
  have b: "createBooking (static_env example_document) (example_booking ''1'' 0) =
           createBooking (static_env example_document) ((example_booking ''1'' 0)\<lparr>quantity := 1\<rparr>)"
    by blast
  from a b q show ?thesis
    using fallback_static by blast
qed

end
